theory Spec2Isabelle
  imports Main "HOL-Library.Sublist"
begin

section \<open>JavaScript values the commands work on\<close>

text \<open>
  Strings are lists of code units, numbers that the code treats as timestamps, limits and
  offsets are integers, and an exception is a value carrying its message.
\<close>

datatype js_error = Error string | RangeError string | TypeError string

fun message :: "js_error \<Rightarrow> string" where
  "message (Error m) = m"
| "message (RangeError m) = m"
| "message (TypeError m) = m"

text \<open>
  Decimal rendering of an integer, as a template literal prints it. JavaScript prints a
  number in plain decimal below 1e21 and holds integers exactly up to 2^53; the rendering
  is that of the source in this range.
\<close>

fun decimal :: "nat \<Rightarrow> string" where
  "decimal n =
     (if n < 10 then [''0123456789'' ! n]
      else decimal (n div 10) @ [''0123456789'' ! (n mod 10)])"

definition number_string :: "int \<Rightarrow> string" where
  "number_string n = (if n < 0 then ''-'' @ decimal (nat (- n)) else decimal (nat n))"

definition pad :: "nat \<Rightarrow> nat \<Rightarrow> string" where
  "pad w n = replicate (w - length (decimal n)) (CHR ''0'') @ decimal n"

subsection \<open>\<open>new Date(ms).toISOString()\<close>\<close>

text \<open>
  A time value is valid within 8.64e15 milliseconds of the epoch; \<open>toISOString\<close> of an
  invalid date raises \<open>RangeError: Invalid time value\<close>. A valid one prints as
  \<open>YYYY-MM-DDTHH:mm:ss.sssZ\<close> in the proleptic Gregorian calendar, with a signed
  six-digit year outside 0..9999.
\<close>

definition civil_from_days :: "int \<Rightarrow> int \<times> int \<times> int" where
  "civil_from_days z0 =
     (let z = z0 + 719468;
          era = z div 146097;
          doe = z - era * 146097;
          yoe = (doe - doe div 1460 + doe div 36524 - doe div 146096) div 365;
          y = yoe + era * 400;
          doy = doe - (365 * yoe + yoe div 4 - yoe div 100);
          mp = (5 * doy + 2) div 153;
          d = doy - (153 * mp + 2) div 5 + 1;
          m = (if mp < 10 then mp + 3 else mp - 9)
      in (if m \<le> 2 then y + 1 else y, m, d))"

definition year_string :: "int \<Rightarrow> string" where
  "year_string y =
     (if 0 \<le> y \<and> y \<le> 9999 then pad 4 (nat y)
      else (if y < 0 then ''-'' else ''+'') @ pad 6 (nat \<bar>y\<bar>))"

definition iso_string :: "int \<Rightarrow> string" where
  "iso_string ms =
     (let (y, m, d) = civil_from_days (ms div 86400000);
          t = ms mod 86400000
      in year_string y @ ''-'' @ pad 2 (nat m) @ ''-'' @ pad 2 (nat d) @ ''T''
         @ pad 2 (nat (t div 3600000)) @ '':'' @ pad 2 (nat (t div 60000 mod 60)) @ '':''
         @ pad 2 (nat (t div 1000 mod 60)) @ ''.'' @ pad 3 (nat (t mod 1000)) @ ''Z'')"

definition toISOString :: "int \<Rightarrow> js_error + string" where
  "toISOString ms =
     (if - 8640000000000000 \<le> ms \<and> ms \<le> 8640000000000000 then Inr (iso_string ms)
      else Inl (RangeError ''Invalid time value''))"

section \<open>The verify command: \<open>verifyAttestation\<close>\<close>

subsection \<open>Data\<close>

record schema_ref =
  schema_id :: string
  schema_text :: string

text \<open>An attestation as the indexer reports it (the fields of the GraphQL selection).\<close>

record attestation =
  att_id :: string
  att_uid :: string
  att_schema :: schema_ref
  att_recipient :: string
  att_attester :: string
  att_time :: int
  timeCreated :: int
  revocationTime :: int
  expirationTime :: int
  revocable :: bool
  att_data :: string
  decodedDataJson :: "string option"

text \<open>What \<open>BlockchainAdapter.getAttestation\<close> resolves to: verify reads its \<open>uid\<close> only.\<close>

record chain_attestation =
  chain_uid :: string

record schema_data =
  sd_uid :: string
  sd_schema :: string
  resolver :: string
  sd_revocable :: bool
  sd_creator :: "string option"

record checks =
  checkExpiration :: bool
  checkRevocation :: bool

record verification_result =
  uid :: string
  isValid :: bool
  exists :: bool
  isRevoked :: bool
  isExpired :: bool
  attestation :: "attestation option"
  issues :: "string list"

text \<open>
  The collaborators of one call: the indexer query by UID list, the two registry reads
  (each resolves, possibly to null, or rejects), and the clock in milliseconds.
\<close>

record world =
  getAttestationsByUID :: "string list \<Rightarrow> js_error + attestation list"
  getAttestation :: "string \<Rightarrow> js_error + chain_attestation option"
  getSchema :: "string \<Rightarrow> js_error + schema_data option"
  date_now :: int

text \<open>The effects of a call, in order: the requests it made and the warnings it logged.\<close>

datatype call =
    IndexerQuery "string list"
  | RegistryGetAttestation string
  | RegistryGetSchema string
  | LogWarn string

fun is_registry_call :: "call \<Rightarrow> bool" where
  "is_registry_call (RegistryGetAttestation u) = True"
| "is_registry_call (RegistryGetSchema u) = True"
| "is_registry_call c = False"

subsection \<open>The checks, in the order of the source\<close>

definition push :: "string \<Rightarrow> verification_result \<Rightarrow> verification_result" where
  "push s r = r\<lparr>issues := issues r @ [s]\<rparr>"

text \<open>
  Each of the two timestamp checks sets its flags first and renders the date second, so
  an exception of \<open>toISOString\<close> leaves the flags set and the issue unpushed. The first
  component of the result is the exception thrown, if any.
\<close>

definition revocationCheck ::
  "checks \<Rightarrow> attestation \<Rightarrow> verification_result \<Rightarrow> js_error option \<times> verification_result" where
  "revocationCheck c a r =
     (if checkRevocation c \<and> revocationTime a > 0 then
        (let r1 = r\<lparr>isRevoked := True, isValid := False\<rparr> in
         case toISOString (revocationTime a * 1000) of
           Inl e \<Rightarrow> (Some e, r1)
         | Inr d \<Rightarrow> (None, push (''Attestation was revoked on '' @ d) r1))
      else (None, r))"

definition expirationCheck ::
  "checks \<Rightarrow> int \<Rightarrow> attestation \<Rightarrow> verification_result \<Rightarrow> js_error option \<times> verification_result" where
  "expirationCheck c now_ms a r =
     (if checkExpiration c \<and> expirationTime a > 0 then
        (let now = now_ms div 1000 in
         if expirationTime a < now then
           (let r1 = r\<lparr>isExpired := True, isValid := False\<rparr> in
            case toISOString (expirationTime a * 1000) of
              Inl e \<Rightarrow> (Some e, r1)
            | Inr d \<Rightarrow> (None, push (''Attestation expired on '' @ d) r1))
         else (None, r))
      else (None, r))"

text \<open>The inner try/catch around the on-chain lookup: nothing escapes it.\<close>

definition crossSourceCheck ::
  "world \<Rightarrow> string \<Rightarrow> verification_result \<Rightarrow> verification_result \<times> call list" where
  "crossSourceCheck w u r =
     (case getAttestation w u of
        Inr onChain \<Rightarrow>
          (if (case onChain of None \<Rightarrow> True | Some oc \<Rightarrow> chain_uid oc \<noteq> u) then
             (push ''Attestation data mismatch between on-chain and indexer''
                (r\<lparr>isValid := False\<rparr>),
              [RegistryGetAttestation u])
           else (r, [RegistryGetAttestation u]))
      | Inl e \<Rightarrow>
          (push ''Warning: Could not verify on-chain data'' r,
           [RegistryGetAttestation u,
            LogWarn (''Could not verify on-chain data: '' @ message e)]))"

definition schemaCheck ::
  "world \<Rightarrow> attestation \<Rightarrow> verification_result \<Rightarrow> verification_result \<times> call list" where
  "schemaCheck w a r =
     (let sid = schema_id (att_schema a) in
      case getSchema w sid of
        Inr sch \<Rightarrow>
          (if (case sch of None \<Rightarrow> True | Some s \<Rightarrow> sd_schema s = []) then
             (push ''Referenced schema does not exist or is invalid'' (r\<lparr>isValid := False\<rparr>),
              [RegistryGetSchema sid])
           else (r, [RegistryGetSchema sid]))
      | Inl e \<Rightarrow>
          (push ''Failed to validate schema'' (r\<lparr>isValid := False\<rparr>),
           [RegistryGetSchema sid]))"

definition allPassed :: "verification_result \<Rightarrow> verification_result" where
  "allPassed r = (if length (issues r) = 0 then push ''All checks passed'' r else r)"

definition initial_result :: "string \<Rightarrow> verification_result" where
  "initial_result u =
     \<lparr>uid = u, isValid = True, exists = False, isRevoked = False, isExpired = False,
      attestation = None, issues = []\<rparr>"

text \<open>
  The body of the outer \<open>try\<close>: the exception that left it (if any), the result object
  as it stood then, and the calls made.
\<close>

definition tryBlock ::
  "world \<Rightarrow> string \<Rightarrow> checks \<Rightarrow> verification_result
     \<Rightarrow> js_error option \<times> verification_result \<times> call list" where
  "tryBlock w u c r =
     (case getAttestationsByUID w [u] of
        Inl e \<Rightarrow> (Some e, r, [IndexerQuery [u]])
      | Inr [] \<Rightarrow>
          (None, push ''Attestation does not exist'' (r\<lparr>exists := False, isValid := False\<rparr>),
           [IndexerQuery [u]])
      | Inr (a # rest) \<Rightarrow>
          (let r1 = r\<lparr>exists := True, attestation := Some a\<rparr> in
           case revocationCheck c a r1 of
             (Some e, r2) \<Rightarrow> (Some e, r2, [IndexerQuery [u]])
           | (None, r2) \<Rightarrow>
               (case expirationCheck c (date_now w) a r2 of
                  (Some e, r3) \<Rightarrow> (Some e, r3, [IndexerQuery [u]])
                | (None, r3) \<Rightarrow>
                    (let (r4, cs4) = crossSourceCheck w u r3;
                         (r5, cs5) = schemaCheck w a r4
                     in (None, allPassed r5, [IndexerQuery [u]] @ cs4 @ cs5)))))"

text \<open>
  \<open>verifyAttestation\<close>: \<open>Inl\<close> would be an exception reaching the caller, \<open>Inr\<close> is the
  returned result with the trace of calls.
\<close>

definition verifyAttestation ::
  "world \<Rightarrow> string \<Rightarrow> checks \<Rightarrow> js_error + (verification_result \<times> call list)" where
  "verifyAttestation w u c =
     (case tryBlock w u c (initial_result u) of
        (None, r, cs) \<Rightarrow> Inr (r, cs)
      | (Some e, r, cs) \<Rightarrow>
          Inr (push (''Verification failed: '' @ message e) (r\<lparr>isValid := False\<rparr>), cs))"

subsection \<open>Predicates the properties are stated with\<close>

text \<open>The schema check passes: the registry returned a schema with a non-empty definition.\<close>

definition schema_ok :: "world \<Rightarrow> attestation \<Rightarrow> bool" where
  "schema_ok w a =
     (case getSchema w (schema_id (att_schema a)) of
        Inr (Some s) \<Rightarrow> sd_schema s \<noteq> []
      | _ \<Rightarrow> False)"

text \<open>
  The invariant of the checks before the final step: validity means that only the
  on-chain warning has been recorded, and the closing entry has not been pushed yet.
\<close>

definition issues_inv :: "verification_result \<Rightarrow> bool" where
  "issues_inv r \<longleftrightarrow>
     (isValid r \<longleftrightarrow> list_all (\<lambda>s. s = ''Warning: Could not verify on-chain data'') (issues r))
     \<and> ''All checks passed'' \<notin> set (issues r)"

text \<open>The issue strings the steps after the timestamp checks can record.\<close>

definition late_issues :: "string set" where
  "late_issues =
     {''Warning: Could not verify on-chain data'',
      ''Attestation data mismatch between on-chain and indexer'',
      ''Referenced schema does not exist or is invalid'',
      ''Failed to validate schema'', ''All checks passed''}"

subsection \<open>Sample collaborators\<close>

text \<open>
  One attestation known to the indexer, a registry that agrees with it, and variations in
  which one collaborator fails or disagrees.
\<close>

definition sample_uid :: string where
  "sample_uid = ''0xabababababababababababababababababababababababababababababababab''"

definition other_uid :: string where
  "other_uid = ''0xcdcdcdcdcdcdcdcdcdcdcdcdcdcdcdcdcdcdcdcdcdcdcdcdcdcdcdcdcdcdcdcd''"

definition sample_attestation :: attestation where
  "sample_attestation =
     \<lparr>att_id = sample_uid, att_uid = sample_uid,
      att_schema = \<lparr>schema_id = ''0x5c1e'', schema_text = ''string name''\<rparr>,
      att_recipient = ''0x742d35Cc6634C0532925a3b844Bc454e4438f44e'',
      att_attester = ''0x00000000000000000000000000000000000000a1'',
      att_time = 1690000000, timeCreated = 1690000000,
      revocationTime = 0, expirationTime = 0, revocable = True,
      att_data = ''0x'', decodedDataJson = None\<rparr>"

definition sample_world :: world where
  "sample_world =
     \<lparr>getAttestationsByUID = (\<lambda>uids. if uids = [sample_uid] then Inr [sample_attestation] else Inr []),
      getAttestation = (\<lambda>u. Inr (Some \<lparr>chain_uid = u\<rparr>)),
      getSchema = (\<lambda>s. Inr (Some \<lparr>sd_uid = s, sd_schema = ''string name'', resolver = ''0x00'',
                                   sd_revocable = True, sd_creator = None\<rparr>)),
      date_now = 1700000000000\<rparr>"

definition attestation_negative_expiration :: attestation where
  "attestation_negative_expiration = sample_attestation\<lparr>expirationTime := - 1\<rparr>"

definition attestation_far_revocation :: attestation where
  "attestation_far_revocation =
     sample_attestation\<lparr>revocationTime := 10000000000000, expirationTime := 1\<rparr>"

definition attestation_lapsed :: attestation where
  "attestation_lapsed =
     sample_attestation\<lparr>revocationTime := 1650000000, expirationTime := 1600000000\<rparr>"

definition world_with :: "attestation \<Rightarrow> world" where
  "world_with a = sample_world\<lparr>getAttestationsByUID := (\<lambda>uids. Inr [a])\<rparr>"

definition world_indexer_down :: world where
  "world_indexer_down =
     sample_world\<lparr>getAttestationsByUID :=
       (\<lambda>uids. Inl (Error ''GraphQL request failed: Service Unavailable''))\<rparr>"

definition world_registry_down :: world where
  "world_registry_down = sample_world\<lparr>getAttestation := (\<lambda>u. Inl (Error ''network error''))\<rparr>"

definition world_registry_null :: world where
  "world_registry_null = sample_world\<lparr>getAttestation := (\<lambda>u. Inr None)\<rparr>"

definition world_registry_other :: world where
  "world_registry_other =
     sample_world\<lparr>getAttestation := (\<lambda>u. Inr (Some \<lparr>chain_uid = other_uid\<rparr>))\<rparr>"

definition both_checks :: checks where
  "both_checks = \<lparr>checkExpiration = True, checkRevocation = True\<rparr>"

section \<open>The query builders of \<open>QueryService\<close>\<close>

text \<open>
  \<open>buildGraphQLQuery\<close> and \<open>buildSchemaQuery\<close>: the options are optional fields, the
  tests on them are JavaScript truthiness tests, and the result is the template literal
  of the source with the argument list spliced in.
\<close>

record query_options =
  schema :: "string option"
  recipient :: "string option"
  attester :: "string option"
  limit :: "int option"
  offset :: "int option"



fun truthy_number :: "int option \<Rightarrow> bool" where
  "truthy_number None = False"
| "truthy_number (Some n) = (n \<noteq> 0)"

text \<open>\<open>Array.prototype.join\<close>.\<close>

fun join :: "string \<Rightarrow> string list \<Rightarrow> string" where
  "join sep [] = []"
| "join sep [x] = x"
| "join sep (x # y # ys) = x @ sep @ join sep (y # ys)"

definition condition :: "string \<Rightarrow> string option \<Rightarrow> string list" where
  "condition field v =
     (case v of
        None \<Rightarrow> []
      | Some s \<Rightarrow> if s \<noteq> [] then [field @ '': \"'' @ s @ ''\"''] else [])"

definition conditions :: "query_options \<Rightarrow> string list" where
  "conditions opts =
     condition ''schemaId'' (schema opts) @ condition ''recipient'' (recipient opts)
       @ condition ''attester'' (attester opts)"

definition whereClause :: "string list \<Rightarrow> string" where
  "whereClause conds =
     (if length conds > 0 then ''where: { '' @ join '', '' conds @ '' }'' else [])"

definition limitClause :: "string \<Rightarrow> int option \<Rightarrow> string" where
  "limitClause dflt l =
     (case l of
        None \<Rightarrow> ''first: '' @ dflt
      | Some n \<Rightarrow> if n \<noteq> 0 then ''first: '' @ number_string n else ''first: '' @ dflt)"

definition offsetClause :: "int option \<Rightarrow> string" where
  "offsetClause off =
     (case off of
        None \<Rightarrow> []
      | Some n \<Rightarrow> if n \<noteq> 0 then ''skip: '' @ number_string n else [])"

definition attestation_arguments :: "query_options \<Rightarrow> string" where
  "attestation_arguments opts =
     join '', ''
       (filter (\<lambda>s. s \<noteq> [])
          [whereClause (conditions opts), limitClause ''100'' (limit opts),
           offsetClause (offset opts)])"

definition attestation_selection :: string where
  "attestation_selection =
     '') {\<newline>'' @
     ''          id\<newline>'' @
     ''          uid\<newline>'' @
     ''          schema {\<newline>'' @
     ''            id\<newline>'' @
     ''            schema\<newline>'' @
     ''          }\<newline>'' @
     ''          recipient\<newline>'' @
     ''          attester\<newline>'' @
     ''          time\<newline>'' @
     ''          timeCreated\<newline>'' @
     ''          revocationTime\<newline>'' @
     ''          expirationTime\<newline>'' @
     ''          revocable\<newline>'' @
     ''          data\<newline>'' @
     ''          decodedDataJson\<newline>'' @
     ''        }\<newline>'' @
     ''      }\<newline>'' @
     ''    ''"

definition buildGraphQLQuery :: "query_options \<Rightarrow> string" where
  "buildGraphQLQuery opts =
     ''\<newline>'' @
     ''      query {\<newline>'' @
     ''        attestations('' @
     attestation_arguments opts @ attestation_selection"





definition no_filters :: query_options where
  "no_filters = \<lparr>schema = None, recipient = None, attester = None, limit = None, offset = None\<rparr>"

section \<open>The logger: \<open>redactSensitive\<close>\<close>

text \<open>
  The three regular expressions of \<open>redactSensitive\<close> are sequences of single-character
  classes, some of them under a greedy star; \<open>match_here\<close> is the backtracking matcher for
  such a sequence (it gives the input left after the match the engine finds first), and
  \<open>replace_all\<close> is \<open>String.prototype.replace\<close> with a global pattern: leftmost matches,
  none overlapping. Messages are strings of code units below 256.
\<close>

datatype char_class = OneOf string | NoneOf string

fun matches :: "char_class \<Rightarrow> char \<Rightarrow> bool" where
  "matches (OneOf cs) c = (c \<in> set cs)"
| "matches (NoneOf cs) c = (c \<notin> set cs)"

datatype atom = One char_class | Star char_class

fun match_here :: "atom list \<Rightarrow> string \<Rightarrow> string option" where
  "match_here [] s = Some s"
| "match_here (One p # r) [] = None"
| "match_here (One p # r) (c # cs) = (if matches p c then match_here r cs else None)"
| "match_here (Star p # r) [] = match_here r []"
| "match_here (Star p # r) (c # cs) =
     (if matches p c then
        (case match_here (Star p # r) cs of
           Some rest \<Rightarrow> Some rest
         | None \<Rightarrow> match_here r (c # cs))
      else match_here r (c # cs))"


text \<open>The character classes \<open>[a-fA-F0-9]\<close>, \<open>.\<close> and, under the \<open>i\<close> flag, \<open>[a-z\s]\<close>.\<close>

definition hex_digits :: string where
  "hex_digits = ''abcdefABCDEF0123456789''"

definition is_hex :: "char \<Rightarrow> bool" where
  "is_hex c = (c \<in> set hex_digits)"
















section \<open>Type inference of \<open>BlockchainAdapter\<close>: \<open>inferType\<close>\<close>

text \<open>A runtime value, as far as \<open>typeof\<close> tells values apart.\<close>

datatype js_value =
    JString string | JNumber int | JBoolean bool | JNull | JUndefined | JBigInt int | JObject

text \<open>
  Modelled from the spec: \<open>ethers.isAddress\<close> belongs to the ethers library and is not part
  of the repository's sources. The spec gives its test as the address pattern, \<open>0x\<close>
  followed by 40 hex characters. \<open>inferType\<close> takes the test as a parameter.
\<close>

definition isAddress :: "string \<Rightarrow> bool" where
  "isAddress s = (length s = 42 \<and> take 2 s = ''0x'' \<and> list_all is_hex (drop 2 s))"

fun inferType :: "(string \<Rightarrow> bool) \<Rightarrow> js_value \<Rightarrow> string" where
  "inferType is_address (JString s) =
     (if is_address s then ''address''
      else if prefix ''0x'' s then ''bytes32''
      else ''string'')"
| "inferType is_address (JNumber n) = ''uint256''"
| "inferType is_address (JBoolean b) = ''bool''"
| "inferType is_address v = ''string''"


definition sample_address :: string where
  "sample_address = ''742d35Cc6634C0532925a3b844Bc454e4438f44e''"

section \<open>Properties of \<open>verifyAttestation\<close>\<close>

subsection \<open>Closed forms of the steps\<close>

lemma revocationCheck_in_range:
  "checkRevocation c \<longrightarrow> revocationTime a \<le> 8640000000000 \<Longrightarrow>
   revocationCheck c a r =
     (None, if checkRevocation c \<and> 0 < revocationTime a
            then push (''Attestation was revoked on '' @ iso_string (revocationTime a * 1000))
                   (r\<lparr>isRevoked := True, isValid := False\<rparr>)
            else r)"
  by (simp add: revocationCheck_def toISOString_def)

lemma revocationCheck_out_of_range:
  "checkRevocation c \<Longrightarrow> 8640000000000 < revocationTime a \<Longrightarrow>
   revocationCheck c a r =
     (Some (RangeError ''Invalid time value''), r\<lparr>isRevoked := True, isValid := False\<rparr>)"
  by (simp add: revocationCheck_def toISOString_def)

lemma expirationCheck_in_range:
  "now_ms \<le> 8640000000000000 \<Longrightarrow>
   expirationCheck c now_ms a r =
     (None, if checkExpiration c \<and> 0 < expirationTime a \<and> expirationTime a < now_ms div 1000
            then push (''Attestation expired on '' @ iso_string (expirationTime a * 1000))
                   (r\<lparr>isExpired := True, isValid := False\<rparr>)
            else r)"
  by (auto simp add: expirationCheck_def toISOString_def Let_def)

lemma crossSourceCheck_rejected:
  "getAttestation w u = Inl e \<Longrightarrow>
   crossSourceCheck w u r =
     (push ''Warning: Could not verify on-chain data'' r,
      [RegistryGetAttestation u, LogWarn (''Could not verify on-chain data: '' @ message e)])"
  by (simp add: crossSourceCheck_def)

lemma crossSourceCheck_null:
  "getAttestation w u = Inr None \<Longrightarrow>
   crossSourceCheck w u r =
     (push ''Attestation data mismatch between on-chain and indexer'' (r\<lparr>isValid := False\<rparr>),
      [RegistryGetAttestation u])"
  by (simp add: crossSourceCheck_def)

lemma crossSourceCheck_other_uid:
  "getAttestation w u = Inr (Some oc) \<Longrightarrow> chain_uid oc \<noteq> u \<Longrightarrow>
   crossSourceCheck w u r =
     (push ''Attestation data mismatch between on-chain and indexer'' (r\<lparr>isValid := False\<rparr>),
      [RegistryGetAttestation u])"
  by (simp add: crossSourceCheck_def)

lemma crossSourceCheck_same_uid:
  "getAttestation w u = Inr (Some oc) \<Longrightarrow> chain_uid oc = u \<Longrightarrow>
   crossSourceCheck w u r = (r, [RegistryGetAttestation u])"
  by (simp add: crossSourceCheck_def)

lemma schemaCheck_ok:
  "schema_ok w a \<Longrightarrow> schemaCheck w a r = (r, [RegistryGetSchema (schema_id (att_schema a))])"
  by (auto simp: schemaCheck_def schema_ok_def Let_def split: sum.splits option.splits)

lemma tryBlock_found:
  assumes "getAttestationsByUID w [u] = Inr (a # rest)"
      and "revocationCheck c a (r\<lparr>exists := True, attestation := Some a\<rparr>) = (None, r2)"
      and "expirationCheck c (date_now w) a r2 = (None, r3)"
  shows "tryBlock w u c r =
           (None, allPassed (fst (schemaCheck w a (fst (crossSourceCheck w u r3)))),
            [IndexerQuery [u]] @ snd (crossSourceCheck w u r3)
              @ snd (schemaCheck w a (fst (crossSourceCheck w u r3))))"
  using assms by (simp add: tryBlock_def split_beta)

subsection \<open>The invariant\<close>

lemma push_fatal_inv:
  assumes "issues_inv r" and "issues r' = issues r @ [s]" and "\<not> isValid r'"
      and "s \<noteq> ''Warning: Could not verify on-chain data''" and "s \<noteq> ''All checks passed''"
  shows "issues_inv r'"
  using assms by (simp add: issues_inv_def)

lemma push_warning_inv:
  "issues_inv r \<Longrightarrow> issues_inv (push ''Warning: Could not verify on-chain data'' r)"
  by (simp add: issues_inv_def push_def)

lemma revocationCheck_inv:
  assumes "revocationCheck c a r = (None, r')" and "issues_inv r"
  shows "issues_inv r'"
proof (cases "checkRevocation c \<and> revocationTime a > 0")
  case False
  with assms show ?thesis by (simp add: revocationCheck_def)
next
  case True
  with assms(1) obtain d where
    "r' = push (''Attestation was revoked on '' @ d) (r\<lparr>isRevoked := True, isValid := False\<rparr>)"
    by (auto simp: revocationCheck_def Let_def split: sum.splits)
  then have "issues r' = issues r @ [''Attestation was revoked on '' @ d]" and "\<not> isValid r'"
    by (simp_all add: push_def)
  with assms(2) show ?thesis by (rule push_fatal_inv) simp_all
qed

lemma expirationCheck_inv:
  assumes "expirationCheck c n a r = (None, r')" and "issues_inv r"
  shows "issues_inv r'"
proof (cases "checkExpiration c \<and> expirationTime a > 0 \<and> expirationTime a < n div 1000")
  case False
  with assms show ?thesis by (auto simp add: expirationCheck_def Let_def split: if_splits)
next
  case True
  with assms(1) obtain d where
    "r' = push (''Attestation expired on '' @ d) (r\<lparr>isExpired := True, isValid := False\<rparr>)"
    by (auto simp: expirationCheck_def Let_def split: sum.splits)
  then have "issues r' = issues r @ [''Attestation expired on '' @ d]" and "\<not> isValid r'"
    by (simp_all add: push_def)
  with assms(2) show ?thesis by (rule push_fatal_inv) simp_all
qed

lemma crossSourceCheck_inv:
  assumes "issues_inv r"
  shows "issues_inv (fst (crossSourceCheck w u r))"
proof (cases "getAttestation w u")
  case (Inl e)
  with assms show ?thesis by (simp add: crossSourceCheck_rejected push_warning_inv)
next
  case (Inr oc)
  show ?thesis
  proof (cases "case oc of None \<Rightarrow> True | Some x \<Rightarrow> chain_uid x \<noteq> u")
    case False
    with Inr assms show ?thesis by (simp add: crossSourceCheck_def)
  next
    case True
    with Inr have "fst (crossSourceCheck w u r) =
        push ''Attestation data mismatch between on-chain and indexer'' (r\<lparr>isValid := False\<rparr>)"
      by (simp add: crossSourceCheck_def)
    then have "issues (fst (crossSourceCheck w u r)) =
        issues r @ [''Attestation data mismatch between on-chain and indexer'']"
      and "\<not> isValid (fst (crossSourceCheck w u r))"
      by (simp_all add: push_def)
    with assms show ?thesis by (rule push_fatal_inv) simp_all
  qed
qed

lemma schemaCheck_failed:
  assumes "\<not> schema_ok w a"
  shows "fst (schemaCheck w a r) =
           push ''Referenced schema does not exist or is invalid'' (r\<lparr>isValid := False\<rparr>)
         \<or> fst (schemaCheck w a r) = push ''Failed to validate schema'' (r\<lparr>isValid := False\<rparr>)"
  using assms by (auto simp: schemaCheck_def schema_ok_def Let_def split: sum.splits option.splits)

lemma schemaCheck_inv:
  assumes "issues_inv r"
  shows "issues_inv (fst (schemaCheck w a r))"
proof (cases "schema_ok w a")
  case True
  with assms show ?thesis by (simp add: schemaCheck_ok)
next
  case False
  from schemaCheck_failed [OF False, of r] show ?thesis
  proof
    assume "fst (schemaCheck w a r) =
      push ''Referenced schema does not exist or is invalid'' (r\<lparr>isValid := False\<rparr>)"
    then have "issues (fst (schemaCheck w a r)) =
        issues r @ [''Referenced schema does not exist or is invalid'']"
      and "\<not> isValid (fst (schemaCheck w a r))"
      by (simp_all add: push_def)
    with assms show ?thesis by (rule push_fatal_inv) simp_all
  next
    assume "fst (schemaCheck w a r) = push ''Failed to validate schema'' (r\<lparr>isValid := False\<rparr>)"
    then have "issues (fst (schemaCheck w a r)) = issues r @ [''Failed to validate schema'']"
      and "\<not> isValid (fst (schemaCheck w a r))"
      by (simp_all add: push_def)
    with assms show ?thesis by (rule push_fatal_inv) simp_all
  qed
qed

lemma list_all_without:
  "x \<notin> set xs \<Longrightarrow> list_all (\<lambda>s. s = x \<or> s = y) xs = list_all (\<lambda>s. s = y) xs"
  by (induction xs) auto

lemma allPassed_final:
  assumes "issues_inv r"
  shows "(isValid (allPassed r) \<longleftrightarrow>
            list_all (\<lambda>s. s = ''All checks passed'' \<or> s = ''Warning: Could not verify on-chain data'')
              (issues (allPassed r)))
         \<and> (''All checks passed'' \<in> set (issues (allPassed r)) \<longleftrightarrow>
              issues (allPassed r) = [''All checks passed''])
         \<and> issues (allPassed r) \<noteq> []"
proof (cases "issues r = []")
  case True
  with assms show ?thesis by (simp add: allPassed_def push_def issues_inv_def)
next
  case False
  from assms have n: "''All checks passed'' \<notin> set (issues r)" by (simp add: issues_inv_def)
  from False have ap: "allPassed r = r" by (simp add: allPassed_def)
  from assms have v: "isValid r = list_all (\<lambda>s. s = ''Warning: Could not verify on-chain data'') (issues r)"
    by (simp add: issues_inv_def)
  have "issues r \<noteq> [''All checks passed'']" using n by auto
  then show ?thesis unfolding ap using n v False by (simp add: list_all_without)
qed

lemma initial_inv: "issues_inv ((initial_result u)\<lparr>exists := True, attestation := Some a\<rparr>)"
  by (simp add: issues_inv_def initial_result_def)

lemma tryBlock_rejected:
  "getAttestationsByUID w [u] = Inl e \<Longrightarrow> tryBlock w u c r = (Some e, r, [IndexerQuery [u]])"
  by (simp add: tryBlock_def)

lemma tryBlock_empty:
  "getAttestationsByUID w [u] = Inr [] \<Longrightarrow>
   tryBlock w u c r =
     (None, push ''Attestation does not exist'' (r\<lparr>exists := False, isValid := False\<rparr>),
      [IndexerQuery [u]])"
  by (simp add: tryBlock_def)

lemma tryBlock_revocation_throws:
  assumes "getAttestationsByUID w [u] = Inr (a # rest)"
      and "revocationCheck c a (r\<lparr>exists := True, attestation := Some a\<rparr>) = (Some e, r2)"
  shows "tryBlock w u c r = (Some e, r2, [IndexerQuery [u]])"
  using assms by (simp add: tryBlock_def)

lemma tryBlock_expiration_throws:
  assumes "getAttestationsByUID w [u] = Inr (a # rest)"
      and "revocationCheck c a (r\<lparr>exists := True, attestation := Some a\<rparr>) = (None, r2)"
      and "expirationCheck c (date_now w) a r2 = (Some e, r3)"
  shows "tryBlock w u c r = (Some e, r3, [IndexerQuery [u]])"
  using assms by (simp add: tryBlock_def)

lemma revocationCheck_thrown:
  assumes "revocationCheck c a r = (Some e, r')"
  shows "r' = r\<lparr>isRevoked := True, isValid := False\<rparr> \<and> e = RangeError ''Invalid time value''
         \<and> checkRevocation c \<and> 8640000000000 < revocationTime a"
  using assms by (auto simp: revocationCheck_def toISOString_def Let_def split: if_splits)

lemma expirationCheck_thrown:
  assumes "expirationCheck c n a r = (Some e, r')"
  shows "r' = r\<lparr>isExpired := True, isValid := False\<rparr> \<and> e = RangeError ''Invalid time value''
         \<and> 8640000000000000 < n"
  using assms by (auto simp: expirationCheck_def toISOString_def Let_def split: if_splits)

text \<open>What holds of the result object when the outer try block completes.\<close>

lemma tryBlock_normal:
  assumes "tryBlock w u c (initial_result u) = (None, r, cs)"
  shows "(isValid r \<longleftrightarrow>
            list_all (\<lambda>s. s = ''All checks passed'' \<or> s = ''Warning: Could not verify on-chain data'')
              (issues r))
         \<and> (''All checks passed'' \<in> set (issues r) \<longleftrightarrow> issues r = [''All checks passed''])
         \<and> issues r \<noteq> []"
proof (cases "getAttestationsByUID w [u]")
  case (Inl e)
  with assms show ?thesis by (simp add: tryBlock_rejected)
next
  case (Inr atts)
  show ?thesis
  proof (cases atts)
    case Nil
    with Inr assms have "r = push ''Attestation does not exist''
        ((initial_result u)\<lparr>exists := False, isValid := False\<rparr>)"
      by (simp add: tryBlock_empty)
    then show ?thesis by (simp add: push_def initial_result_def)
  next
    case (Cons a rest)
    let ?r1 = "(initial_result u)\<lparr>exists := True, attestation := Some a\<rparr>"
    obtain t2 r2 where s2: "revocationCheck c a ?r1 = (t2, r2)" by (cases "revocationCheck c a ?r1")
    obtain t3 r3 where s3: "expirationCheck c (date_now w) a r2 = (t3, r3)"
      by (cases "expirationCheck c (date_now w) a r2")
    from Inr Cons have found: "getAttestationsByUID w [u] = Inr (a # rest)" by simp
    have t2: "t2 = None"
    proof (cases t2)
      case (Some e)
      with tryBlock_revocation_throws [OF found] s2 assms show ?thesis by simp
    qed
    have t3: "t3 = None"
    proof (cases t3)
      case (Some e)
      with tryBlock_expiration_throws [OF found] s2 s3 t2 assms show ?thesis by simp
    qed
    from tryBlock_found [OF found] s2 s3 t2 t3 assms
    have r: "r = allPassed (fst (schemaCheck w a (fst (crossSourceCheck w u r3))))" by simp
    have "issues_inv r2" using revocationCheck_inv s2 t2 initial_inv by blast
    then have "issues_inv r3" using expirationCheck_inv s3 t3 by blast
    then have "issues_inv (fst (schemaCheck w a (fst (crossSourceCheck w u r3))))"
      by (intro schemaCheck_inv crossSourceCheck_inv)
    then show ?thesis unfolding r by (rule allPassed_final)
  qed
qed

text \<open>What holds of it when an exception leaves the block.\<close>

lemma tryBlock_thrown:
  assumes "tryBlock w u c (initial_result u) = (Some e, r, cs)"
  shows "cs = [IndexerQuery [u]] \<and> ''All checks passed'' \<notin> set (issues r)
         \<and> (date_now w \<le> 8640000000000000 \<longrightarrow> issues r = [])"
proof (cases "getAttestationsByUID w [u]")
  case (Inl e')
  with assms have "r = initial_result u" "cs = [IndexerQuery [u]]"
    by (simp_all add: tryBlock_rejected)
  then show ?thesis by (simp add: initial_result_def)
next
  case (Inr atts)
  show ?thesis
  proof (cases atts)
    case Nil
    with Inr assms show ?thesis by (simp add: tryBlock_empty)
  next
    case (Cons a rest)
    let ?r1 = "(initial_result u)\<lparr>exists := True, attestation := Some a\<rparr>"
    obtain t2 r2 where s2: "revocationCheck c a ?r1 = (t2, r2)" by (cases "revocationCheck c a ?r1")
    obtain t3 r3 where s3: "expirationCheck c (date_now w) a r2 = (t3, r3)"
      by (cases "expirationCheck c (date_now w) a r2")
    from Inr Cons have found: "getAttestationsByUID w [u] = Inr (a # rest)" by simp
    show ?thesis
    proof (cases t2)
      case (Some e2)
      with tryBlock_revocation_throws [OF found] s2 assms
      have "r = r2" "cs = [IndexerQuery [u]]" by simp_all
      moreover from revocationCheck_thrown s2 Some
      have "r2 = ?r1\<lparr>isRevoked := True, isValid := False\<rparr>" by blast
      ultimately show ?thesis by (simp add: initial_result_def)
    next
      case None
      note t2 = this
      have inv2: "issues_inv r2" using revocationCheck_inv s2 t2 initial_inv by blast
      show ?thesis
      proof (cases t3)
        case (Some e3)
        with tryBlock_expiration_throws [OF found] s2 s3 t2 assms
        have "r = r3" "cs = [IndexerQuery [u]]" by simp_all
        moreover from expirationCheck_thrown s3 Some
        have "r3 = r2\<lparr>isExpired := True, isValid := False\<rparr>" "8640000000000000 < date_now w"
          by blast+
        ultimately show ?thesis using inv2 by (simp add: issues_inv_def)
      next
        case None
        with tryBlock_found [OF found] s2 s3 t2 assms show ?thesis by simp
      qed
    qed
  qed
qed

subsection \<open>What the later steps leave alone\<close>

lemma crossSourceCheck_frame:
  "isRevoked (fst (crossSourceCheck w u r)) = isRevoked r
   \<and> isExpired (fst (crossSourceCheck w u r)) = isExpired r
   \<and> (\<exists>extra. issues (fst (crossSourceCheck w u r)) = issues r @ extra
         \<and> set extra \<subseteq> late_issues)"
  by (cases "getAttestation w u") (auto simp: crossSourceCheck_def push_def late_issues_def)

lemma crossSourceCheck_valid_down:
  "isValid (fst (crossSourceCheck w u r)) \<longrightarrow> isValid r"
  by (cases "getAttestation w u") (auto simp: crossSourceCheck_def push_def)

lemma schemaCheck_frame:
  "isRevoked (fst (schemaCheck w a r)) = isRevoked r
   \<and> isExpired (fst (schemaCheck w a r)) = isExpired r
   \<and> isValid (fst (schemaCheck w a r)) = (isValid r \<and> schema_ok w a)
   \<and> (\<exists>extra. issues (fst (schemaCheck w a r)) = issues r @ extra
         \<and> set extra \<subseteq> late_issues)"
proof (cases "schema_ok w a")
  case True
  then show ?thesis by (simp add: schemaCheck_ok)
next
  case False
  from schemaCheck_failed [OF False, of r] show ?thesis
    by (auto simp: push_def False late_issues_def)
qed

lemma allPassed_frame:
  "isRevoked (allPassed r) = isRevoked r \<and> isExpired (allPassed r) = isExpired r
   \<and> isValid (allPassed r) = isValid r
   \<and> (\<exists>extra. issues (allPassed r) = issues r @ extra \<and> set extra \<subseteq> late_issues)"
  by (simp add: allPassed_def push_def late_issues_def)

lemma later_steps_frame:
  fixes w u a r3
  defines "r \<equiv> allPassed (fst (schemaCheck w a (fst (crossSourceCheck w u r3))))"
  shows "isRevoked r = isRevoked r3 \<and> isExpired r = isExpired r3
         \<and> isValid r = (isValid (fst (crossSourceCheck w u r3)) \<and> schema_ok w a)
         \<and> set (issues (fst (crossSourceCheck w u r3))) \<subseteq> set (issues r)
         \<and> (\<exists>extra. issues r = issues r3 @ extra \<and> set extra \<subseteq> late_issues)"
proof -
  let ?r4 = "fst (crossSourceCheck w u r3)"
  let ?r5 = "fst (schemaCheck w a ?r4)"
  from crossSourceCheck_frame [of w u r3] obtain e4 where
    f4: "isRevoked ?r4 = isRevoked r3" "isExpired ?r4 = isExpired r3"
        "issues ?r4 = issues r3 @ e4" "set e4 \<subseteq> late_issues"
    by blast
  from schemaCheck_frame [of w a ?r4] obtain e5 where
    f5: "isRevoked ?r5 = isRevoked ?r4" "isExpired ?r5 = isExpired ?r4"
        "isValid ?r5 = (isValid ?r4 \<and> schema_ok w a)"
        "issues ?r5 = issues ?r4 @ e5" "set e5 \<subseteq> late_issues"
    by blast
  from allPassed_frame [of ?r5] obtain e6 where
    f6: "isRevoked r = isRevoked ?r5" "isExpired r = isExpired ?r5" "isValid r = isValid ?r5"
        "issues r = issues ?r5 @ e6" "set e6 \<subseteq> late_issues"
    unfolding r_def by blast
  have a: "issues r = issues r3 @ (e4 @ e5 @ e6)" using f4(3) f5(4) f6(4) by simp
  have b: "set (e4 @ e5 @ e6) \<subseteq> late_issues" using f4(4) f5(5) f6(5) by simp
  have c: "set (issues ?r4) \<subseteq> set (issues r)" using f5(4) f6(4) by simp
  have d: "isRevoked r = isRevoked r3" using f4(1) f5(1) f6(1) by simp
  have e: "isExpired r = isExpired r3" using f4(2) f5(2) f6(2) by simp
  have f: "isValid r = (isValid ?r4 \<and> schema_ok w a)" using f5(3) f6(3) by simp
  from a b c d e f show ?thesis by blast
qed

text \<open>The attestation was found and neither timestamp check raised.\<close>

lemma verify_found:
  assumes "getAttestationsByUID w [u] = Inr (a # rest)"
      and "checkRevocation c \<longrightarrow> revocationTime a \<le> 8640000000000"
      and "date_now w \<le> 8640000000000000"
  obtains r2 r3 where
        "revocationCheck c a ((initial_result u)\<lparr>exists := True, attestation := Some a\<rparr>) = (None, r2)"
    and "expirationCheck c (date_now w) a r2 = (None, r3)"
    and "issues r2 = (if checkRevocation c \<and> 0 < revocationTime a
               then [''Attestation was revoked on '' @ iso_string (revocationTime a * 1000)] else [])"
    and "issues r3 = issues r2 @
              (if checkExpiration c \<and> 0 < expirationTime a \<and> expirationTime a < date_now w div 1000
               then [''Attestation expired on '' @ iso_string (expirationTime a * 1000)] else [])"
    and "isRevoked r3 = (checkRevocation c \<and> 0 < revocationTime a)"
    and "isExpired r3 =
              (checkExpiration c \<and> 0 < expirationTime a \<and> expirationTime a < date_now w div 1000)"
    and "isValid r3 = (\<not> isRevoked r3 \<and> \<not> isExpired r3)"
    and "verifyAttestation w u c =
             Inr (allPassed (fst (schemaCheck w a (fst (crossSourceCheck w u r3)))),
                  [IndexerQuery [u]] @ snd (crossSourceCheck w u r3)
                    @ snd (schemaCheck w a (fst (crossSourceCheck w u r3))))"
proof -
  let ?r1 = "(initial_result u)\<lparr>exists := True, attestation := Some a\<rparr>"
  let ?rev = "checkRevocation c \<and> 0 < revocationTime a"
  let ?exp = "checkExpiration c \<and> 0 < expirationTime a \<and> expirationTime a < date_now w div 1000"
  define r2 where "r2 = (if ?rev
      then push (''Attestation was revoked on '' @ iso_string (revocationTime a * 1000))
             (?r1\<lparr>isRevoked := True, isValid := False\<rparr>)
      else ?r1)"
  define r3 where "r3 = (if ?exp
      then push (''Attestation expired on '' @ iso_string (expirationTime a * 1000))
             (r2\<lparr>isExpired := True, isValid := False\<rparr>)
      else r2)"
  have s2: "revocationCheck c a ?r1 = (None, r2)"
    unfolding r2_def by (rule revocationCheck_in_range [OF assms(2)])
  have s3: "expirationCheck c (date_now w) a r2 = (None, r3)"
    unfolding r3_def by (rule expirationCheck_in_range [OF assms(3)])
  have i2: "issues r2 = (if ?rev
      then [''Attestation was revoked on '' @ iso_string (revocationTime a * 1000)] else [])"
    and v2: "isValid r2 = (\<not> ?rev)" and e2: "\<not> isExpired r2" and k2: "isRevoked r2 = ?rev"
    by (simp_all add: r2_def push_def initial_result_def)
  have i3: "issues r3 = issues r2 @ (if ?exp
      then [''Attestation expired on '' @ iso_string (expirationTime a * 1000)] else [])"
    and v3: "isValid r3 = (isValid r2 \<and> \<not> ?exp)" and e3: "isExpired r3 = ?exp"
    and k3: "isRevoked r3 = isRevoked r2"
    using e2 by (simp_all add: r3_def push_def)
  have vr: "verifyAttestation w u c =
      Inr (allPassed (fst (schemaCheck w a (fst (crossSourceCheck w u r3)))),
           [IndexerQuery [u]] @ snd (crossSourceCheck w u r3)
             @ snd (schemaCheck w a (fst (crossSourceCheck w u r3))))"
    by (simp add: verifyAttestation_def tryBlock_found [OF assms(1) s2 s3])
  have w3: "isValid r3 = (\<not> isRevoked r3 \<and> \<not> isExpired r3)" using v2 v3 e3 k2 k3 by simp
  have k3': "isRevoked r3 = ?rev" using k2 k3 by simp
  show thesis by (rule that [OF s2 s3 i2 i3 k3' e3 w3 vr])
qed

subsection \<open>Evaluating the samples\<close>

lemmas sample_defs = sample_uid_def other_uid_def sample_attestation_def sample_world_def
  world_with_def both_checks_def

lemmas verify_defs = verifyAttestation_def tryBlock_def revocationCheck_def expirationCheck_def
  crossSourceCheck_def schemaCheck_def allPassed_def push_def initial_result_def Let_def

subsection \<open>The claims about verify\<close>

text \<open>
  C1. When the indexer query for the UID returns no attestation, verify returns the result
  with \<open>exists = false\<close>, \<open>isValid = false\<close> and the single issue
  "Attestation does not exist", and the only call it has made is the indexer query: neither
  registry read happens.
\<close>

theorem verify_not_found:
  assumes "getAttestationsByUID w [u] = Inr []"
  shows "verifyAttestation w u c =
           Inr (\<lparr>uid = u, isValid = False, exists = False, isRevoked = False, isExpired = False,
                 attestation = None, issues = [''Attestation does not exist'']\<rparr>,
                [IndexerQuery [u]])
         \<and> \<not> list_ex is_registry_call (snd (projr (verifyAttestation w u c)))"
  using assms by (simp add: verifyAttestation_def tryBlock_empty push_def initial_result_def)

theorem verify_not_found_witness:
  "getAttestationsByUID sample_world [other_uid] = Inr []
   \<and> verifyAttestation sample_world other_uid both_checks =
       Inr (\<lparr>uid = other_uid, isValid = False, exists = False, isRevoked = False,
             isExpired = False, attestation = None, issues = [''Attestation does not exist'']\<rparr>,
            [IndexerQuery [other_uid]])"
  using verify_not_found [of sample_world other_uid both_checks]
  by (simp add: sample_world_def sample_uid_def other_uid_def)

text \<open>
  C2, as the code has it. In every result verify returns, \<open>isValid\<close> holds exactly when
  each entry of the issues list is either "All checks passed" or the non-fatal
  "Warning: Could not verify on-chain data"; "All checks passed" occurs only as the sole entry,
  pushed by the last step exactly when the list is still empty; and the list is never empty.
\<close>

theorem verify_valid_iff:
  assumes "verifyAttestation w u c = Inr (r, cs)"
  shows "(isValid r \<longleftrightarrow>
            list_all (\<lambda>s. s = ''All checks passed'' \<or> s = ''Warning: Could not verify on-chain data'')
              (issues r))
         \<and> (''All checks passed'' \<in> set (issues r) \<longleftrightarrow> issues r = [''All checks passed''])
         \<and> issues r \<noteq> []
         \<and> (\<forall>r0. issues (allPassed r0) =
                   (if issues r0 = [] then [''All checks passed''] else issues r0))"
proof -
  obtain t r0 cs0 where tb: "tryBlock w u c (initial_result u) = (t, r0, cs0)"
    by (cases "tryBlock w u c (initial_result u)")
  have last: "\<forall>r0. issues (allPassed r0) =
                   (if issues r0 = [] then [''All checks passed''] else issues r0)"
    by (simp add: allPassed_def push_def)
  show ?thesis
  proof (cases t)
    case None
    with tb assms have "r = r0" by (simp add: verifyAttestation_def)
    with tb None tryBlock_normal [of w u c r cs0] last show ?thesis by blast
  next
    case (Some e)
    with tb assms have r: "r = push (''Verification failed: '' @ message e) (r0\<lparr>isValid := False\<rparr>)"
      by (simp add: verifyAttestation_def)
    from tryBlock_thrown tb Some have "''All checks passed'' \<notin> set (issues r0)" by blast
    with r last show ?thesis by (simp add: push_def)
  qed
qed

theorem verify_valid_iff_witness:
  "verifyAttestation sample_world sample_uid both_checks =
     Inr (\<lparr>uid = sample_uid, isValid = True, exists = True, isRevoked = False, isExpired = False,
           attestation = Some sample_attestation, issues = [''All checks passed'']\<rparr>,
          [IndexerQuery [sample_uid], RegistryGetAttestation sample_uid,
           RegistryGetSchema ''0x5c1e''])
   \<and> isValid (fst (projr (verifyAttestation sample_world sample_uid both_checks)))"
  using verify_valid_iff [of sample_world sample_uid both_checks
      "fst (projr (verifyAttestation sample_world sample_uid both_checks))"
      "snd (projr (verifyAttestation sample_world sample_uid both_checks))"]
  by (simp add: verify_defs sample_defs)

text \<open>
  The closing entry is not the only way to a non-empty list with \<open>isValid\<close> true: when
  the registry lookup fails and nothing else is wrong, the list holds the warning alone.
\<close>

theorem verify_warning_only_valid:
  "verifyAttestation world_registry_down sample_uid both_checks =
     Inr (\<lparr>uid = sample_uid, isValid = True, exists = True, isRevoked = False,
           isExpired = False, attestation = Some sample_attestation,
           issues = [''Warning: Could not verify on-chain data'']\<rparr>,
          [IndexerQuery [sample_uid], RegistryGetAttestation sample_uid,
           LogWarn ''Could not verify on-chain data: network error'',
           RegistryGetSchema ''0x5c1e''])
   \<and> [''Warning: Could not verify on-chain data''] \<noteq> [''All checks passed'']"
  by (simp add: verify_defs sample_defs world_registry_down_def)

text \<open>
  C3, as the code has it. The indexer query stands inside the outer \<open>try\<close>, so verify
  never lets an exception reach its caller: it always returns a result. When the indexer
  query fails with error \<open>e\<close>, the result is the initial one with \<open>isValid = false\<close> and the
  single issue "Verification failed: " followed by the message of \<open>e\<close>. When a later step
  throws, the result has \<open>isValid = false\<close> and ends with that issue (which is the only one
  whenever the clock is a valid date); the revocation date that \<open>Date\<close> cannot render is
  such a step.
\<close>

theorem verify_never_throws:
  "(\<exists>r cs. verifyAttestation w u c = Inr (r, cs))
   \<and> (\<forall>e. getAttestationsByUID w [u] = Inl e \<longrightarrow>
          verifyAttestation w u c =
            Inr (\<lparr>uid = u, isValid = False, exists = False, isRevoked = False, isExpired = False,
                  attestation = None, issues = [''Verification failed: '' @ message e]\<rparr>,
                 [IndexerQuery [u]]))
   \<and> (\<forall>e r0 cs. tryBlock w u c (initial_result u) = (Some e, r0, cs) \<longrightarrow>
          (\<exists>r. verifyAttestation w u c = Inr (r, cs) \<and> \<not> isValid r
               \<and> last (issues r) = ''Verification failed: '' @ message e
               \<and> (date_now w \<le> 8640000000000000 \<longrightarrow>
                    issues r = [''Verification failed: '' @ message e])))
   \<and> (\<forall>a rest. getAttestationsByUID w [u] = Inr (a # rest) \<and> checkRevocation c
          \<and> 8640000000000 < revocationTime a \<longrightarrow>
          verifyAttestation w u c =
            Inr (\<lparr>uid = u, isValid = False, exists = True, isRevoked = True, isExpired = False,
                  attestation = Some a, issues = [''Verification failed: Invalid time value'']\<rparr>,
                 [IndexerQuery [u]]))"
proof (intro conjI allI impI)
  show "\<exists>r cs. verifyAttestation w u c = Inr (r, cs)"
    by (cases "tryBlock w u c (initial_result u)" rule: prod_cases3)
       (auto simp: verifyAttestation_def split: option.splits)
next
  fix e assume "getAttestationsByUID w [u] = Inl e"
  then show "verifyAttestation w u c =
      Inr (\<lparr>uid = u, isValid = False, exists = False, isRevoked = False, isExpired = False,
            attestation = None, issues = [''Verification failed: '' @ message e]\<rparr>,
           [IndexerQuery [u]])"
    by (simp add: verifyAttestation_def tryBlock_rejected push_def initial_result_def)
next
  fix e r0 cs assume tb: "tryBlock w u c (initial_result u) = (Some e, r0, cs)"
  let ?r = "push (''Verification failed: '' @ message e) (r0\<lparr>isValid := False\<rparr>)"
  from tb have v: "verifyAttestation w u c = Inr (?r, cs)" by (simp add: verifyAttestation_def)
  from tryBlock_thrown [OF tb] have "date_now w \<le> 8640000000000000 \<longrightarrow> issues r0 = []" by blast
  then have "\<not> isValid ?r \<and> last (issues ?r) = ''Verification failed: '' @ message e
      \<and> (date_now w \<le> 8640000000000000 \<longrightarrow> issues ?r = [''Verification failed: '' @ message e])"
    by (simp add: push_def)
  with v show "\<exists>r. verifyAttestation w u c = Inr (r, cs) \<and> \<not> isValid r
               \<and> last (issues r) = ''Verification failed: '' @ message e
               \<and> (date_now w \<le> 8640000000000000 \<longrightarrow>
                    issues r = [''Verification failed: '' @ message e])"
    by blast
next
  fix a rest
  assume h: "getAttestationsByUID w [u] = Inr (a # rest) \<and> checkRevocation c
          \<and> 8640000000000 < revocationTime a"
  then have "tryBlock w u c (initial_result u) =
      (Some (RangeError ''Invalid time value''),
       (initial_result u)\<lparr>exists := True, attestation := Some a, isRevoked := True, isValid := False\<rparr>,
       [IndexerQuery [u]])"
    by (intro tryBlock_revocation_throws [where a = a and rest = rest])
       (simp_all add: revocationCheck_out_of_range)
  then show "verifyAttestation w u c =
            Inr (\<lparr>uid = u, isValid = False, exists = True, isRevoked = True, isExpired = False,
                  attestation = Some a, issues = [''Verification failed: Invalid time value'']\<rparr>,
                 [IndexerQuery [u]])"
    by (simp add: verifyAttestation_def push_def initial_result_def)
qed

theorem verify_never_throws_witness:
  "getAttestationsByUID world_indexer_down [sample_uid] =
     Inl (Error ''GraphQL request failed: Service Unavailable'')
   \<and> verifyAttestation world_indexer_down sample_uid both_checks =
       Inr (\<lparr>uid = sample_uid, isValid = False, exists = False, isRevoked = False,
             isExpired = False, attestation = None,
             issues = [''Verification failed: GraphQL request failed: Service Unavailable'']\<rparr>,
            [IndexerQuery [sample_uid]])
   \<and> tryBlock (world_with attestation_far_revocation) sample_uid both_checks
         (initial_result sample_uid) =
       (Some (RangeError ''Invalid time value''),
        \<lparr>uid = sample_uid, isValid = False, exists = True, isRevoked = True, isExpired = False,
          attestation = Some attestation_far_revocation, issues = []\<rparr>,
        [IndexerQuery [sample_uid]])
   \<and> verifyAttestation (world_with attestation_far_revocation) sample_uid both_checks =
       Inr (\<lparr>uid = sample_uid, isValid = False, exists = True, isRevoked = True,
             isExpired = False, attestation = Some attestation_far_revocation,
             issues = [''Verification failed: Invalid time value'']\<rparr>,
            [IndexerQuery [sample_uid]])"
  using verify_never_throws [of world_indexer_down sample_uid both_checks]
    verify_never_throws [of "world_with attestation_far_revocation" sample_uid both_checks]
  by (simp add: verify_defs sample_defs world_indexer_down_def
        attestation_far_revocation_def toISOString_def)

text \<open>
  The failure of the existence check is not propagated: it comes back as a result.
\<close>

theorem verify_indexer_failure_returned:
  "getAttestationsByUID world_indexer_down [sample_uid] =
     Inl (Error ''GraphQL request failed: Service Unavailable'')
   \<and> verifyAttestation world_indexer_down sample_uid both_checks \<noteq>
       Inl (Error ''GraphQL request failed: Service Unavailable'')
   \<and> verifyAttestation world_indexer_down sample_uid both_checks =
       Inr (\<lparr>uid = sample_uid, isValid = False, exists = False, isRevoked = False,
             isExpired = False, attestation = None,
             issues = [''Verification failed: GraphQL request failed: Service Unavailable'']\<rparr>,
            [IndexerQuery [sample_uid]])"
  by (simp add: verify_defs sample_defs world_indexer_down_def)

text \<open>
  C4. For an attestation the indexer knows, with timestamps that \<open>Date\<close> can render (so that
  the cross-source check is reached). If the registry lookup throws, the step only appends
  "Warning: Could not verify on-chain data": the result is returned with that issue, and
  \<open>isValid\<close> is decided by the revocation, expiration and schema checks alone. If the lookup
  returns a record whose uid differs from the requested one, the result holds
  "Attestation data mismatch between on-chain and indexer" and \<open>isValid\<close> is false.
\<close>

theorem verify_cross_source:
  assumes "getAttestationsByUID w [u] = Inr (a # rest)"
      and "checkRevocation c \<longrightarrow> revocationTime a \<le> 8640000000000"
      and "date_now w \<le> 8640000000000000"
  shows "(\<forall>e. getAttestation w u = Inl e \<longrightarrow>
            (\<forall>r0. fst (crossSourceCheck w u r0) =
                    r0\<lparr>issues := issues r0 @ [''Warning: Could not verify on-chain data'']\<rparr>)
            \<and> (\<exists>r cs. verifyAttestation w u c = Inr (r, cs)
                  \<and> ''Warning: Could not verify on-chain data'' \<in> set (issues r)
                  \<and> (isValid r \<longleftrightarrow>
                       \<not> (checkRevocation c \<and> 0 < revocationTime a)
                       \<and> \<not> (checkExpiration c \<and> 0 < expirationTime a
                              \<and> expirationTime a < date_now w div 1000)
                       \<and> schema_ok w a)))
       \<and> (\<forall>oc. getAttestation w u = Inr (Some oc) \<and> chain_uid oc \<noteq> u \<longrightarrow>
            (\<exists>r cs. verifyAttestation w u c = Inr (r, cs)
                  \<and> ''Attestation data mismatch between on-chain and indexer'' \<in> set (issues r)
                  \<and> \<not> isValid r))"
proof -
  show ?thesis
  proof (rule verify_found [OF assms])
  fix r2 r3
  assume k3: "isRevoked r3 = (checkRevocation c \<and> 0 < revocationTime a)"
    and e3: "isExpired r3 = (checkExpiration c \<and> 0 < expirationTime a
                              \<and> expirationTime a < date_now w div 1000)"
    and v3: "isValid r3 = (\<not> isRevoked r3 \<and> \<not> isExpired r3)"
    and v: "verifyAttestation w u c =
             Inr (allPassed (fst (schemaCheck w a (fst (crossSourceCheck w u r3)))),
                  [IndexerQuery [u]] @ snd (crossSourceCheck w u r3)
                    @ snd (schemaCheck w a (fst (crossSourceCheck w u r3))))"
  let ?r4 = "fst (crossSourceCheck w u r3)"
  let ?r = "allPassed (fst (schemaCheck w a ?r4))"
  from later_steps_frame [of w a u r3]
  have fv: "isValid ?r = (isValid ?r4 \<and> schema_ok w a)"
    and fi: "set (issues ?r4) \<subseteq> set (issues ?r)"
    by blast+
  show ?thesis
  proof (intro conjI allI impI)
    fix e r0 assume "getAttestation w u = Inl e"
    then show "fst (crossSourceCheck w u r0) =
        r0\<lparr>issues := issues r0 @ [''Warning: Could not verify on-chain data'']\<rparr>"
      by (simp add: crossSourceCheck_rejected push_def)
  next
    fix e assume "getAttestation w u = Inl e"
    then have r4: "?r4 = push ''Warning: Could not verify on-chain data'' r3"
      by (simp add: crossSourceCheck_rejected)
    then have "''Warning: Could not verify on-chain data'' \<in> set (issues ?r4)"
      and "isValid ?r4 = isValid r3"
      by (simp_all add: push_def)
    with fv fi v3 k3 e3 have "''Warning: Could not verify on-chain data'' \<in> set (issues ?r)
        \<and> (isValid ?r \<longleftrightarrow>
              \<not> (checkRevocation c \<and> 0 < revocationTime a)
              \<and> \<not> (checkExpiration c \<and> 0 < expirationTime a
                     \<and> expirationTime a < date_now w div 1000)
              \<and> schema_ok w a)"
      by blast
    with v show "\<exists>r cs. verifyAttestation w u c = Inr (r, cs)
                  \<and> ''Warning: Could not verify on-chain data'' \<in> set (issues r)
                  \<and> (isValid r \<longleftrightarrow>
                       \<not> (checkRevocation c \<and> 0 < revocationTime a)
                       \<and> \<not> (checkExpiration c \<and> 0 < expirationTime a
                              \<and> expirationTime a < date_now w div 1000)
                       \<and> schema_ok w a)"
      by blast
  next
    fix oc assume "getAttestation w u = Inr (Some oc) \<and> chain_uid oc \<noteq> u"
    then have "?r4 = push ''Attestation data mismatch between on-chain and indexer''
        (r3\<lparr>isValid := False\<rparr>)"
      by (simp add: crossSourceCheck_other_uid)
    then have "''Attestation data mismatch between on-chain and indexer'' \<in> set (issues ?r4)"
      and "\<not> isValid ?r4"
      by (simp_all add: push_def)
    with fv fi have "''Attestation data mismatch between on-chain and indexer'' \<in> set (issues ?r)
        \<and> \<not> isValid ?r"
      by blast
    with v show "\<exists>r cs. verifyAttestation w u c = Inr (r, cs)
                  \<and> ''Attestation data mismatch between on-chain and indexer'' \<in> set (issues r)
                  \<and> \<not> isValid r"
      by blast
  qed
qed
qed

theorem verify_cross_source_witness:
  "getAttestationsByUID world_registry_down [sample_uid] = Inr [sample_attestation]
   \<and> getAttestation world_registry_down sample_uid = Inl (Error ''network error'')
   \<and> verifyAttestation world_registry_down sample_uid both_checks =
       Inr (\<lparr>uid = sample_uid, isValid = True, exists = True, isRevoked = False,
             isExpired = False, attestation = Some sample_attestation,
             issues = [''Warning: Could not verify on-chain data'']\<rparr>,
            [IndexerQuery [sample_uid], RegistryGetAttestation sample_uid,
             LogWarn ''Could not verify on-chain data: network error'',
             RegistryGetSchema ''0x5c1e''])
   \<and> getAttestation world_registry_other sample_uid = Inr (Some \<lparr>chain_uid = other_uid\<rparr>)
   \<and> other_uid \<noteq> sample_uid
   \<and> verifyAttestation world_registry_other sample_uid both_checks =
       Inr (\<lparr>uid = sample_uid, isValid = False, exists = True, isRevoked = False,
             isExpired = False, attestation = Some sample_attestation,
             issues = [''Attestation data mismatch between on-chain and indexer'']\<rparr>,
            [IndexerQuery [sample_uid], RegistryGetAttestation sample_uid,
             RegistryGetSchema ''0x5c1e''])"
  using verify_cross_source [of world_registry_down sample_uid sample_attestation "[]" both_checks]
    verify_cross_source [of world_registry_other sample_uid sample_attestation "[]" both_checks]
  by (simp add: verify_defs sample_defs world_registry_down_def
        world_registry_other_def)

lemma expiry_issue_not_late:
  "''Attestation expired on '' @ d \<notin> late_issues"
  by (simp add: late_issues_def)

lemma verify_lapsed:
  "verifyAttestation (world_with attestation_lapsed) sample_uid both_checks =
     Inr (\<lparr>uid = sample_uid, isValid = False, exists = True, isRevoked = True, isExpired = True,
           attestation = Some attestation_lapsed,
           issues = [''Attestation was revoked on 2022-04-15T05:20:00.000Z'',
                     ''Attestation expired on 2020-09-13T12:26:40.000Z'']\<rparr>,
          [IndexerQuery [sample_uid], RegistryGetAttestation sample_uid,
           RegistryGetSchema ''0x5c1e''])"
  by code_simp

text \<open>
  C5, as the code has it. For an attestation the indexer knows, verified with
  \<open>checkExpiration = true\<close>, when the revocation check does not throw (it is off, or the
  revocation time is one \<open>Date\<close> can render) and the clock is a valid date: \<open>isExpired\<close> is
  true exactly when the expiration timestamp is strictly positive and strictly less than
  the current time in seconds; then \<open>isValid\<close> is false and the expiration issue is in the
  list (and only then is it). With expiration timestamp zero \<open>isExpired\<close> is false.
\<close>

theorem verify_expiration:
  assumes "getAttestationsByUID w [u] = Inr (a # rest)" and "checkExpiration c"
      and "checkRevocation c \<longrightarrow> revocationTime a \<le> 8640000000000"
      and "date_now w \<le> 8640000000000000"
  shows "\<exists>r cs. verifyAttestation w u c = Inr (r, cs)
     \<and> (isExpired r \<longleftrightarrow> 0 < expirationTime a \<and> expirationTime a < date_now w div 1000)
     \<and> (isExpired r \<longrightarrow> \<not> isValid r)
     \<and> (isExpired r \<longleftrightarrow>
          ''Attestation expired on '' @ iso_string (expirationTime a * 1000) \<in> set (issues r))
     \<and> (expirationTime a = 0 \<longrightarrow> \<not> isExpired r)"
proof -
  let ?E = "''Attestation expired on '' @ iso_string (expirationTime a * 1000)"
  let ?exp = "0 < expirationTime a \<and> expirationTime a < date_now w div 1000"
  show ?thesis
  proof (rule verify_found [OF assms(1,3,4)])
  fix r2 r3
  assume i2: "issues r2 = (if checkRevocation c \<and> 0 < revocationTime a
               then [''Attestation was revoked on '' @ iso_string (revocationTime a * 1000)] else [])"
    and i3': "issues r3 = issues r2 @
              (if checkExpiration c \<and> 0 < expirationTime a \<and> expirationTime a < date_now w div 1000
               then [?E] else [])"
    and e3': "isExpired r3 =
              (checkExpiration c \<and> 0 < expirationTime a \<and> expirationTime a < date_now w div 1000)"
    and v3: "isValid r3 = (\<not> isRevoked r3 \<and> \<not> isExpired r3)"
    and v: "verifyAttestation w u c =
             Inr (allPassed (fst (schemaCheck w a (fst (crossSourceCheck w u r3)))),
                  [IndexerQuery [u]] @ snd (crossSourceCheck w u r3)
                    @ snd (schemaCheck w a (fst (crossSourceCheck w u r3))))"
  from i3' assms(2) have i3: "issues r3 = issues r2 @ (if ?exp then [?E] else [])" by simp
  from e3' assms(2) have e3: "isExpired r3 = ?exp" by simp
  let ?r = "allPassed (fst (schemaCheck w a (fst (crossSourceCheck w u r3))))"
  from later_steps_frame [of w a u r3] obtain extra where
    fe: "isExpired ?r = isExpired r3"
    and fv: "isValid ?r = (isValid (fst (crossSourceCheck w u r3)) \<and> schema_ok w a)"
    and fi: "issues ?r = issues r3 @ extra" and fx: "set extra \<subseteq> late_issues"
    by blast
  from crossSourceCheck_valid_down [of w u r3] fv have down: "isValid ?r \<longrightarrow> isValid r3" by blast
  have "?E \<notin> set (issues r2)" by (simp add: i2)
  moreover have "?E \<notin> set extra" using fx expiry_issue_not_late by blast
  ultimately have m: "?E \<in> set (issues ?r) \<longleftrightarrow> ?exp" by (simp add: fi i3)
  have "(isExpired ?r \<longleftrightarrow> ?exp) \<and> (isExpired ?r \<longrightarrow> \<not> isValid ?r)
     \<and> (isExpired ?r \<longleftrightarrow> ?E \<in> set (issues ?r))
     \<and> (expirationTime a = 0 \<longrightarrow> \<not> isExpired ?r)"
    using fe e3 m down v3 by auto
  with v show ?thesis by blast
  qed
qed

theorem verify_expiration_witness:
  "getAttestationsByUID (world_with attestation_lapsed) [sample_uid] = Inr [attestation_lapsed]
   \<and> checkExpiration both_checks
   \<and> revocationTime attestation_lapsed \<le> 8640000000000
   \<and> date_now (world_with attestation_lapsed) \<le> 8640000000000000
   \<and> 0 < expirationTime attestation_lapsed
   \<and> expirationTime attestation_lapsed < date_now (world_with attestation_lapsed) div 1000
   \<and> isExpired (fst (projr (verifyAttestation (world_with attestation_lapsed) sample_uid both_checks)))
   \<and> \<not> isValid (fst (projr (verifyAttestation (world_with attestation_lapsed) sample_uid both_checks)))
   \<and> ''Attestation expired on 2020-09-13T12:26:40.000Z''
       \<in> set (issues (fst (projr
             (verifyAttestation (world_with attestation_lapsed) sample_uid both_checks))))"
  using verify_expiration [of "world_with attestation_lapsed" sample_uid attestation_lapsed "[]"
      both_checks]
  by (simp add: verify_lapsed) (simp add: sample_defs attestation_lapsed_def)

text \<open>
  The test of the code is \<open>expirationTime > 0\<close>, not \<open>expirationTime \<noteq> 0\<close>: a negative
  timestamp is nonzero and earlier than now, and is not flagged. And an attestation whose
  revocation date cannot be rendered leaves the try block before the expiration check.
\<close>

theorem verify_expiration_not_flagged:
  "checkExpiration both_checks
   \<and> expirationTime attestation_negative_expiration \<noteq> 0
   \<and> expirationTime attestation_negative_expiration
       < date_now (world_with attestation_negative_expiration) div 1000
   \<and> verifyAttestation (world_with attestation_negative_expiration) sample_uid both_checks =
       Inr (\<lparr>uid = sample_uid, isValid = True, exists = True, isRevoked = False,
             isExpired = False, attestation = Some attestation_negative_expiration,
             issues = [''All checks passed'']\<rparr>,
            [IndexerQuery [sample_uid], RegistryGetAttestation sample_uid,
             RegistryGetSchema ''0x5c1e''])
   \<and> expirationTime attestation_far_revocation \<noteq> 0
   \<and> expirationTime attestation_far_revocation
       < date_now (world_with attestation_far_revocation) div 1000
   \<and> verifyAttestation (world_with attestation_far_revocation) sample_uid both_checks =
       Inr (\<lparr>uid = sample_uid, isValid = False, exists = True, isRevoked = True,
             isExpired = False, attestation = Some attestation_far_revocation,
             issues = [''Verification failed: Invalid time value'']\<rparr>,
            [IndexerQuery [sample_uid]])"
  by (simp add: verify_defs sample_defs attestation_negative_expiration_def
        attestation_far_revocation_def toISOString_def)

text \<open>
  C9. When the registry lookup resolves to null, the cross-source step does what it does
  for a record with another uid: it sets \<open>isValid\<close> to false and appends
  "Attestation data mismatch between on-chain and indexer", logging no warning. The whole
  result equals the one obtained with a registry that returns a record of another uid.
\<close>

theorem verify_null_record:
  assumes "getAttestation w u = Inr None"
  shows "(\<forall>r0. crossSourceCheck w u r0 =
            (r0\<lparr>isValid := False,
                issues := issues r0 @ [''Attestation data mismatch between on-chain and indexer'']\<rparr>,
             [RegistryGetAttestation u]))
       \<and> (\<forall>oc. chain_uid oc \<noteq> u \<longrightarrow>
            verifyAttestation w u c =
              verifyAttestation (w\<lparr>getAttestation := (\<lambda>x. Inr (Some oc))\<rparr>) u c)
       \<and> (\<forall>a rest. getAttestationsByUID w [u] = Inr (a # rest)
            \<and> (checkRevocation c \<longrightarrow> revocationTime a \<le> 8640000000000)
            \<and> date_now w \<le> 8640000000000000 \<longrightarrow>
            (\<exists>r cs. verifyAttestation w u c = Inr (r, cs)
                  \<and> ''Attestation data mismatch between on-chain and indexer'' \<in> set (issues r)
                  \<and> \<not> isValid r \<and> \<not> list_ex (\<lambda>x. case x of LogWarn m \<Rightarrow> True | _ \<Rightarrow> False) cs))"
proof (intro conjI allI impI)
  fix r0
  from assms show "crossSourceCheck w u r0 =
            (r0\<lparr>isValid := False,
                issues := issues r0 @ [''Attestation data mismatch between on-chain and indexer'']\<rparr>,
             [RegistryGetAttestation u])"
    by (simp add: crossSourceCheck_null push_def)
next
  fix oc :: chain_attestation assume ne: "chain_uid oc \<noteq> u"
  let ?w = "w\<lparr>getAttestation := (\<lambda>x. Inr (Some oc))\<rparr>"
  have x: "\<And>r. crossSourceCheck ?w u r = crossSourceCheck w u r"
    using assms ne by (simp add: crossSourceCheck_def)
  have s: "\<And>a r. schemaCheck ?w a r = schemaCheck w a r"
    by (simp add: schemaCheck_def)
  have d: "date_now ?w = date_now w" and g: "getAttestationsByUID ?w = getAttestationsByUID w"
    by simp_all
  have "\<And>r. tryBlock ?w u c r = tryBlock w u c r"
    unfolding tryBlock_def x s d g by (rule refl)
  then show "verifyAttestation w u c = verifyAttestation ?w u c"
    by (simp add: verifyAttestation_def)
next
  fix a rest
  assume h: "getAttestationsByUID w [u] = Inr (a # rest)
            \<and> (checkRevocation c \<longrightarrow> revocationTime a \<le> 8640000000000)
            \<and> date_now w \<le> 8640000000000000"
  then have h1: "getAttestationsByUID w [u] = Inr (a # rest)"
    and h2: "checkRevocation c \<longrightarrow> revocationTime a \<le> 8640000000000"
    and h3: "date_now w \<le> 8640000000000000" by blast+
  show "\<exists>r cs. verifyAttestation w u c = Inr (r, cs)
                  \<and> ''Attestation data mismatch between on-chain and indexer'' \<in> set (issues r)
                  \<and> \<not> isValid r \<and> \<not> list_ex (\<lambda>x. case x of LogWarn m \<Rightarrow> True | _ \<Rightarrow> False) cs"
  proof (rule verify_found [OF h1 h2 h3])
  fix r2 r3
  assume v: "verifyAttestation w u c =
             Inr (allPassed (fst (schemaCheck w a (fst (crossSourceCheck w u r3)))),
                  [IndexerQuery [u]] @ snd (crossSourceCheck w u r3)
                    @ snd (schemaCheck w a (fst (crossSourceCheck w u r3))))"
  let ?r4 = "fst (crossSourceCheck w u r3)"
  let ?r = "allPassed (fst (schemaCheck w a ?r4))"
  let ?cs = "[IndexerQuery [u]] @ snd (crossSourceCheck w u r3) @ snd (schemaCheck w a ?r4)"
  from later_steps_frame [of w a u r3]
  have fv: "isValid ?r = (isValid ?r4 \<and> schema_ok w a)"
    and fi: "set (issues ?r4) \<subseteq> set (issues ?r)"
    by blast+
  from assms have x: "crossSourceCheck w u r3 =
      (push ''Attestation data mismatch between on-chain and indexer'' (r3\<lparr>isValid := False\<rparr>),
       [RegistryGetAttestation u])"
    by (simp add: crossSourceCheck_null)
  then have "''Attestation data mismatch between on-chain and indexer'' \<in> set (issues ?r4)"
      and "\<not> isValid ?r4"
    by (simp_all add: push_def)
  with fv fi have a: "''Attestation data mismatch between on-chain and indexer'' \<in> set (issues ?r)
        \<and> \<not> isValid ?r"
    by blast
  have "snd (schemaCheck w a ?r4) = [RegistryGetSchema (schema_id (att_schema a))]"
    by (auto simp: schemaCheck_def Let_def split: sum.splits)
  with x have "\<not> list_ex (\<lambda>x. case x of LogWarn m \<Rightarrow> True | _ \<Rightarrow> False) ?cs"
    by simp
  with a v show ?thesis by blast
  qed
qed

theorem verify_null_record_witness:
  "getAttestation world_registry_null sample_uid = Inr None
   \<and> getAttestationsByUID world_registry_null [sample_uid] = Inr [sample_attestation]
   \<and> verifyAttestation world_registry_null sample_uid both_checks =
       Inr (\<lparr>uid = sample_uid, isValid = False, exists = True, isRevoked = False,
             isExpired = False, attestation = Some sample_attestation,
             issues = [''Attestation data mismatch between on-chain and indexer'']\<rparr>,
            [IndexerQuery [sample_uid], RegistryGetAttestation sample_uid,
             RegistryGetSchema ''0x5c1e''])
   \<and> verifyAttestation world_registry_null sample_uid both_checks =
       verifyAttestation world_registry_other sample_uid both_checks"
  using verify_null_record [of world_registry_null sample_uid both_checks]
  by (simp add: verify_defs sample_defs world_registry_null_def
        world_registry_other_def)

section \<open>Properties of the query builders\<close>

lemma limitClause_closed:
  "limitClause d l = ''first: '' @ (if truthy_number l then number_string (the l) else d)"
  by (cases l) (simp_all add: limitClause_def)

lemma offsetClause_closed:
  "offsetClause off = (if truthy_number off then ''skip: '' @ number_string (the off) else [])"
  by (cases off) (simp_all add: offsetClause_def)

lemma whereClause_closed:
  "whereClause conds = (if conds = [] then [] else ''where: { '' @ join '', '' conds @ '' }'')"
  by (simp add: whereClause_def)

lemma attestation_arguments_closed:
  "attestation_arguments opts =
     (if conditions opts = [] then [] else ''where: { '' @ join '', '' (conditions opts) @ '' }, '')
     @ ''first: '' @ (if truthy_number (limit opts) then number_string (the (limit opts)) else ''100'')
     @ (if truthy_number (offset opts) then '', skip: '' @ number_string (the (offset opts)) else [])"
  unfolding attestation_arguments_def whereClause_closed offsetClause_closed limitClause_closed
  by simp




lemma sublist_middle: "sublist x (a @ x @ b)"
  unfolding sublist_def by blast

text \<open>
  C10. A limit of 0 renders as no limit does: the rendered query holds \<open>first: 100\<close>, its
  argument list being the where clause (if any), \<open>first: 100\<close> and the skip clause (if any).
  An offset of 0 renders as no offset does: the argument list ends with the limit clause,
  with no skip clause. With no filter, limit 0 and offset 0 the whole query is the one
  with \<open>attestations(first: 100)\<close>, which holds neither \<open>first: 0\<close> nor \<open>skip\<close>.
\<close>

theorem query_builder_zero:
  "buildGraphQLQuery (opts\<lparr>limit := Some 0\<rparr>) = buildGraphQLQuery (opts\<lparr>limit := None\<rparr>)
   \<and> buildGraphQLQuery (opts\<lparr>offset := Some 0\<rparr>) = buildGraphQLQuery (opts\<lparr>offset := None\<rparr>)
   \<and> limitClause ''100'' (Some 0) = ''first: 100''
   \<and> offsetClause (Some 0) = []
   \<and> attestation_arguments (no_filters\<lparr>limit := Some 0, offset := Some 0\<rparr>) = ''first: 100''
   \<and> buildGraphQLQuery (no_filters\<lparr>limit := Some 0, offset := Some 0\<rparr>) =
       buildGraphQLQuery no_filters
   \<and> sublist ''first: 100'' (buildGraphQLQuery (opts\<lparr>limit := Some 0\<rparr>))
   \<and> buildGraphQLQuery (opts\<lparr>limit := Some 0\<rparr>) =
       ''\<newline>      query {\<newline>        attestations(''
       @ (if conditions opts = [] then [] else ''where: { '' @ join '', '' (conditions opts) @ '' }, '')
       @ ''first: 100''
       @ (if truthy_number (offset opts) then '', skip: '' @ number_string (the (offset opts)) else [])
       @ attestation_selection
   \<and> buildGraphQLQuery (opts\<lparr>offset := Some 0\<rparr>) =
       ''\<newline>      query {\<newline>        attestations(''
       @ (if conditions opts = [] then [] else ''where: { '' @ join '', '' (conditions opts) @ '' }, '')
       @ ''first: '' @ (if truthy_number (limit opts) then number_string (the (limit opts)) else ''100'')
       @ attestation_selection
   \<and> buildGraphQLQuery (no_filters\<lparr>limit := Some 0, offset := Some 0\<rparr>) =
       ''\<newline>      query {\<newline>        attestations(first: 100) {\<newline>'' @
       ''          id\<newline>          uid\<newline>          schema {\<newline>            id\<newline>            schema\<newline>          }\<newline>'' @
       ''          recipient\<newline>          attester\<newline>          time\<newline>          timeCreated\<newline>'' @
       ''          revocationTime\<newline>          expirationTime\<newline>          revocable\<newline>          data\<newline>'' @
       ''          decodedDataJson\<newline>        }\<newline>      }\<newline>    ''
   \<and> \<not> sublist ''first: 0'' (buildGraphQLQuery (no_filters\<lparr>limit := Some 0, offset := Some 0\<rparr>))
   \<and> \<not> sublist ''skip'' (buildGraphQLQuery (no_filters\<lparr>limit := Some 0, offset := Some 0\<rparr>))"
proof -
  have c: "conditions (opts\<lparr>limit := Some 0\<rparr>) = conditions opts"
    "conditions (opts\<lparr>offset := Some 0\<rparr>) = conditions opts"
    by (simp_all add: conditions_def)
  have l: "buildGraphQLQuery (opts\<lparr>limit := Some 0\<rparr>) =
       ''\<newline>      query {\<newline>        attestations(''
       @ (if conditions opts = [] then [] else ''where: { '' @ join '', '' (conditions opts) @ '' }, '')
       @ ''first: 100''
       @ (if truthy_number (offset opts) then '', skip: '' @ number_string (the (offset opts)) else [])
       @ attestation_selection"
    by (simp add: buildGraphQLQuery_def attestation_arguments_closed c)
  have o: "buildGraphQLQuery (opts\<lparr>offset := Some 0\<rparr>) =
       ''\<newline>      query {\<newline>        attestations(''
       @ (if conditions opts = [] then [] else ''where: { '' @ join '', '' (conditions opts) @ '' }, '')
       @ ''first: '' @ (if truthy_number (limit opts) then number_string (the (limit opts)) else ''100'')
       @ attestation_selection"
    by (simp add: buildGraphQLQuery_def attestation_arguments_closed c)
  have s: "sublist ''first: 100'' (buildGraphQLQuery (opts\<lparr>limit := Some 0\<rparr>))"
    unfolding l
    using sublist_middle [of "''first: 100''"
        "''\<newline>      query {\<newline>        attestations(''
         @ (if conditions opts = [] then [] else ''where: { '' @ join '', '' (conditions opts) @ '' }, '')"
        "(if truthy_number (offset opts) then '', skip: '' @ number_string (the (offset opts)) else [])
         @ attestation_selection"]
    by (simp only: append_assoc)
  have e: "buildGraphQLQuery (opts\<lparr>limit := Some 0\<rparr>) = buildGraphQLQuery (opts\<lparr>limit := None\<rparr>)
   \<and> buildGraphQLQuery (opts\<lparr>offset := Some 0\<rparr>) = buildGraphQLQuery (opts\<lparr>offset := None\<rparr>)
   \<and> limitClause ''100'' (Some 0) = ''first: 100''
   \<and> offsetClause (Some 0) = []
   \<and> attestation_arguments (no_filters\<lparr>limit := Some 0, offset := Some 0\<rparr>) = ''first: 100''
   \<and> buildGraphQLQuery (no_filters\<lparr>limit := Some 0, offset := Some 0\<rparr>) =
       buildGraphQLQuery no_filters"
    by (simp add: buildGraphQLQuery_def attestation_arguments_closed conditions_def no_filters_def
        limitClause_def offsetClause_def condition_def)
  have f: "buildGraphQLQuery (no_filters\<lparr>limit := Some 0, offset := Some 0\<rparr>) =
       ''\<newline>      query {\<newline>        attestations(first: 100) {\<newline>'' @
       ''          id\<newline>          uid\<newline>          schema {\<newline>            id\<newline>            schema\<newline>          }\<newline>'' @
       ''          recipient\<newline>          attester\<newline>          time\<newline>          timeCreated\<newline>'' @
       ''          revocationTime\<newline>          expirationTime\<newline>          revocable\<newline>          data\<newline>'' @
       ''          decodedDataJson\<newline>        }\<newline>      }\<newline>    ''"
    by code_simp
  have g: "\<not> sublist ''first: 0'' (buildGraphQLQuery (no_filters\<lparr>limit := Some 0, offset := Some 0\<rparr>))"
    by code_simp
  have h: "\<not> sublist ''skip'' (buildGraphQLQuery (no_filters\<lparr>limit := Some 0, offset := Some 0\<rparr>))"
    by code_simp
  show ?thesis
    apply (intro conjI)
    apply (rule e [THEN conjunct1])
    apply (rule e [THEN conjunct2, THEN conjunct1])
    apply (rule e [THEN conjunct2, THEN conjunct2, THEN conjunct1])
    apply (rule e [THEN conjunct2, THEN conjunct2, THEN conjunct2, THEN conjunct1])
    apply (rule e [THEN conjunct2, THEN conjunct2, THEN conjunct2, THEN conjunct2, THEN conjunct1])
    apply (rule e [THEN conjunct2, THEN conjunct2, THEN conjunct2, THEN conjunct2, THEN conjunct2])
    apply (rule s, rule l, rule o, rule f, rule g, rule h)
    done
qed

section \<open>Properties of \<open>redactSensitive\<close>\<close>





















subsection \<open>The address pattern after any text\<close>







subsection \<open>What a match leaves\<close>





lemma star_exists:
  assumes "match_here Q w = Some r0"
  shows "\<exists>r. match_here (Star p # Q) w = Some r"
  using assms by (cases w) (auto split: option.splits)

subsection \<open>The private-key pattern on a labelled key\<close>















section \<open>Properties of \<open>inferType\<close>\<close>

text \<open>
  C7. Whatever the address test \<open>t\<close> is, \<open>inferType\<close> gives \<open>address\<close> for a string that passes
  it, \<open>bytes32\<close> for any other string that begins with \<open>0x\<close>, \<open>string\<close> for any other string,
  \<open>uint256\<close> for a number and \<open>bool\<close> for a boolean. With the address pattern of the spec
  as the test, every address also begins with \<open>0x\<close> and is still given \<open>address\<close>: the
  address test comes first.
\<close>

theorem inferType_cases:
  "(t s \<longrightarrow> inferType t (JString s) = ''address'')
   \<and> (\<not> t s \<and> prefix ''0x'' s \<longrightarrow> inferType t (JString s) = ''bytes32'')
   \<and> (\<not> t s \<and> \<not> prefix ''0x'' s \<longrightarrow> inferType t (JString s) = ''string'')
   \<and> inferType t (JNumber n) = ''uint256''
   \<and> inferType t (JBoolean b) = ''bool''
   \<and> (isAddress s \<longrightarrow> prefix ''0x'' s \<and> inferType isAddress (JString s) = ''address'')"
proof -
  have "prefix ''0x'' s" if "isAddress s"
  proof -
    from that have "take 2 s = ''0x''" by (simp add: isAddress_def)
    then have "s = ''0x'' @ drop 2 s" by (metis append_take_drop_id)
    then show ?thesis by (metis prefixI)
  qed
  then show ?thesis by simp
qed

theorem inferType_cases_witness:
  "isAddress (''0x'' @ sample_address)
   \<and> inferType isAddress (JString (''0x'' @ sample_address)) = ''address''
   \<and> prefix ''0x'' (''0x'' @ sample_address)
   \<and> \<not> isAddress ''0x1234'' \<and> prefix ''0x'' ''0x1234''
   \<and> inferType isAddress (JString ''0x1234'') = ''bytes32''
   \<and> \<not> isAddress ''42'' \<and> \<not> prefix ''0x'' ''42''
   \<and> inferType isAddress (JString ''42'') = ''string''"
  using inferType_cases [of isAddress "''0x'' @ sample_address"]
    inferType_cases [of isAddress "''0x1234''"] inferType_cases [of isAddress "''42''"]
  by (simp add: isAddress_def sample_address_def is_hex_def hex_digits_def)

end
